theory Spec2Isabelle
  imports Main "HOL-Library.Word"
begin

unbundle bit_operations_syntax

section \<open>Values that cross the C interface of zbessel.cc\<close>

text \<open>
  The exported functions of \<^verbatim>\<open>src/zbessel.cc\<close> take \<^verbatim>\<open>double\<close> and \<^verbatim>\<open>int\<close>
  arguments by value and \<^verbatim>\<open>double *\<close> and \<^verbatim>\<open>int *\<close> arguments as addresses. None of
  them does arithmetic: a \<^verbatim>\<open>double\<close> is modelled by its 64-bit IEEE-754 pattern and an
  \<^verbatim>\<open>int\<close> by a 32-bit word (read as two's complement with \<open>sint\<close>). A pointer is the
  address of a cell of its element type; address 0 is the null pointer.
\<close>

type_synonym double = "64 word"
type_synonym cint = "32 word"

datatype dptr = DPtr nat
datatype iptr = IPtr nat

definition null_dptr :: dptr where
  "null_dptr = DPtr 0"

definition null_iptr :: iptr where
  "null_iptr = IPtr 0"

text \<open>
  The caller's memory: the allocated \<^verbatim>\<open>double\<close> cells and the allocated \<^verbatim>\<open>int\<close> cells,
  each a partial map from addresses. A cell that is not in the domain is not allocated.
\<close>

record memory =
  doubles :: "nat \<rightharpoonup> double"
  ints :: "nat \<rightharpoonup> cint"

section \<open>Calls into namespace zbessel\<close>

text \<open>
  One constructor for each call expression of the file, carrying the actual arguments in
  the order in which the call lists them:
  \<^verbatim>\<open>zbessel::zbesh(zr, zi, fnu, kode, m, n, cyr, cyi, nz)\<close>,
  \<^verbatim>\<open>zbessel::zbesi(zr, zi, fnu, kode, n, cyr, cyi, nz)\<close> (and the same for zbesj, zbesk),
  \<^verbatim>\<open>zbessel::zbesy(zr, zi, fnu, kode, n, cyr, cyi, nz, cwrkr, cwrki)\<close>,
  \<^verbatim>\<open>zbessel::zairy(zr, zi, id, kode, air, aii, nz)\<close> and
  \<^verbatim>\<open>zbessel::zbiry(zr, zi, id, kode, bir, bii)\<close>.
\<close>

datatype call =
    Zbesh double double double cint cint cint dptr dptr iptr
  | Zbesi double double double cint cint dptr dptr iptr
  | Zbesj double double double cint cint dptr dptr iptr
  | Zbesk double double double cint cint dptr dptr iptr
  | Zbesy double double double cint cint dptr dptr iptr dptr dptr
  | Zairy double double cint cint dptr dptr iptr
  | Zbiry double double cint cint dptr dptr

text \<open>
  The routines of namespace \<^verbatim>\<open>zbessel\<close> are declared in \<^verbatim>\<open>zbessel.hh\<close>, which is not
  among the sources, so the wrappers are modelled over an arbitrary implementation of
  them: a function from the call and the memory at the call to the returned status and the
  memory at the return, or \<open>None\<close> when the routine does not return (a fault on a
  pointer it was handed, for instance).
\<close>

type_synonym core = "call \<Rightarrow> memory \<Rightarrow> (cint \<times> memory) option"

text \<open>
  The state a caller can observe around a call: its memory, and (as a ghost component,
  never read by the program) the list of calls into namespace zbessel made so far.
\<close>

record world =
  mem :: memory
  history :: "call list"

text \<open>
  A call expression \<^verbatim>\<open>zbessel::f(args)\<close>: the routine runs on the current memory; the
  call is appended to the history whether or not the routine returns.
\<close>

definition invoke :: "core \<Rightarrow> call \<Rightarrow> world \<Rightarrow> cint option \<times> world" where
  "invoke K c w =
     (case K c (mem w) of
        None \<Rightarrow> (None, w\<lparr>history := history w @ [c]\<rparr>)
      | Some (st, m') \<Rightarrow> (Some st, \<lparr>mem = m', history = history w @ [c]\<rparr>))"

section \<open>The exported functions\<close>

text \<open>
  Each body is a single \<^verbatim>\<open>return zbessel::f(...);\<close>. The result of a model function is the
  returned \<^verbatim>\<open>int\<close> (\<open>None\<close> when the function does not return) and the world after it.
\<close>

definition zbesh ::
  "core \<Rightarrow> double \<Rightarrow> double \<Rightarrow> double \<Rightarrow> cint \<Rightarrow> cint \<Rightarrow> cint \<Rightarrow> dptr \<Rightarrow> dptr \<Rightarrow> iptr
     \<Rightarrow> world \<Rightarrow> cint option \<times> world" where
  "zbesh K zr zi fnu kode m n cyr cyi nz = invoke K (Zbesh zr zi fnu kode m n cyr cyi nz)"

definition zbesi ::
  "core \<Rightarrow> double \<Rightarrow> double \<Rightarrow> double \<Rightarrow> cint \<Rightarrow> cint \<Rightarrow> dptr \<Rightarrow> dptr \<Rightarrow> iptr
     \<Rightarrow> world \<Rightarrow> cint option \<times> world" where
  "zbesi K zr zi fnu kode n cyr cyi nz = invoke K (Zbesi zr zi fnu kode n cyr cyi nz)"

definition zbesj ::
  "core \<Rightarrow> double \<Rightarrow> double \<Rightarrow> double \<Rightarrow> cint \<Rightarrow> cint \<Rightarrow> dptr \<Rightarrow> dptr \<Rightarrow> iptr
     \<Rightarrow> world \<Rightarrow> cint option \<times> world" where
  "zbesj K zr zi fnu kode n cyr cyi nz = invoke K (Zbesj zr zi fnu kode n cyr cyi nz)"

definition zbesk ::
  "core \<Rightarrow> double \<Rightarrow> double \<Rightarrow> double \<Rightarrow> cint \<Rightarrow> cint \<Rightarrow> dptr \<Rightarrow> dptr \<Rightarrow> iptr
     \<Rightarrow> world \<Rightarrow> cint option \<times> world" where
  "zbesk K zr zi fnu kode n cyr cyi nz = invoke K (Zbesk zr zi fnu kode n cyr cyi nz)"

definition zbesy ::
  "core \<Rightarrow> double \<Rightarrow> double \<Rightarrow> double \<Rightarrow> cint \<Rightarrow> cint \<Rightarrow> dptr \<Rightarrow> dptr \<Rightarrow> iptr \<Rightarrow> dptr \<Rightarrow> dptr
     \<Rightarrow> world \<Rightarrow> cint option \<times> world" where
  "zbesy K zr zi fnu kode n cyr cyi nz cwrkr cwrki =
     invoke K (Zbesy zr zi fnu kode n cyr cyi nz cwrkr cwrki)"

definition zairy ::
  "core \<Rightarrow> double \<Rightarrow> double \<Rightarrow> cint \<Rightarrow> cint \<Rightarrow> dptr \<Rightarrow> dptr \<Rightarrow> iptr
     \<Rightarrow> world \<Rightarrow> cint option \<times> world" where
  "zairy K zr zi id' kode air aii nz = invoke K (Zairy zr zi id' kode air aii nz)"

definition zbiry ::
  "core \<Rightarrow> double \<Rightarrow> double \<Rightarrow> cint \<Rightarrow> cint \<Rightarrow> dptr \<Rightarrow> dptr
     \<Rightarrow> world \<Rightarrow> cint option \<times> world" where
  "zbiry K zr zi id' kode bir bii = invoke K (Zbiry zr zi id' kode bir bii)"

text \<open>
  What the caller of an exported function gets back: the status together with the memory
  at the return, or \<open>None\<close> when the function did not return.
\<close>

definition outcome_of :: "cint option \<times> world \<Rightarrow> (cint \<times> memory) option" where
  "outcome_of r = (case fst r of None \<Rightarrow> None | Some st \<Rightarrow> Some (st, mem (snd r)))"

text \<open>The calls into namespace zbessel that a run added to the history.\<close>

definition calls_made :: "world \<Rightarrow> cint option \<times> world \<Rightarrow> call list" where
  "calls_made w r = drop (length (history w)) (history (snd r))"

section \<open>The parameter lists\<close>

text \<open>
  The seven exported symbols and their parameter lists as declared in the file, left to
  right: the name of each parameter and its C type.
\<close>

datatype entry = ZBESH | ZBESI | ZBESJ | ZBESK | ZBESY | ZAIRY | ZBIRY

datatype ctype = CDouble | CInt | CDoublePtr | CIntPtr

fun params :: "entry \<Rightarrow> (string \<times> ctype) list" where
  "params ZBESH =
     [(''zr'', CDouble), (''zi'', CDouble), (''fnu'', CDouble), (''kode'', CInt), (''m'', CInt),
      (''n'', CInt), (''cyr'', CDoublePtr), (''cyi'', CDoublePtr), (''nz'', CIntPtr)]"
| "params ZBESI =
     [(''zr'', CDouble), (''zi'', CDouble), (''fnu'', CDouble), (''kode'', CInt),
      (''n'', CInt), (''cyr'', CDoublePtr), (''cyi'', CDoublePtr), (''nz'', CIntPtr)]"
| "params ZBESJ =
     [(''zr'', CDouble), (''zi'', CDouble), (''fnu'', CDouble), (''kode'', CInt),
      (''n'', CInt), (''cyr'', CDoublePtr), (''cyi'', CDoublePtr), (''nz'', CIntPtr)]"
| "params ZBESK =
     [(''zr'', CDouble), (''zi'', CDouble), (''fnu'', CDouble), (''kode'', CInt),
      (''n'', CInt), (''cyr'', CDoublePtr), (''cyi'', CDoublePtr), (''nz'', CIntPtr)]"
| "params ZBESY =
     [(''zr'', CDouble), (''zi'', CDouble), (''fnu'', CDouble), (''kode'', CInt),
      (''n'', CInt), (''cyr'', CDoublePtr), (''cyi'', CDoublePtr), (''nz'', CIntPtr),
      (''cwrkr'', CDoublePtr), (''cwrki'', CDoublePtr)]"
| "params ZAIRY =
     [(''zr'', CDouble), (''zi'', CDouble), (''id'', CInt), (''kode'', CInt),
      (''air'', CDoublePtr), (''aii'', CDoublePtr), (''nz'', CIntPtr)]"
| "params ZBIRY =
     [(''zr'', CDouble), (''zi'', CDouble), (''id'', CInt), (''kode'', CInt),
      (''bir'', CDoublePtr), (''bii'', CDoublePtr)]"

definition param_names :: "entry \<Rightarrow> string list" where
  "param_names e = map fst (params e)"

definition has_param :: "entry \<Rightarrow> string \<Rightarrow> bool" where
  "has_param e x = (x \<in> set (param_names e))"

text \<open>The actual arguments of a call, as tagged values in the order of the call.\<close>

datatype arg = ADouble double | AInt cint | ADoublePtr dptr | AIntPtr iptr

fun arg_type :: "arg \<Rightarrow> ctype" where
  "arg_type (ADouble _) = CDouble"
| "arg_type (AInt _) = CInt"
| "arg_type (ADoublePtr _) = CDoublePtr"
| "arg_type (AIntPtr _) = CIntPtr"

fun entry_of :: "call \<Rightarrow> entry" where
  "entry_of (Zbesh _ _ _ _ _ _ _ _ _) = ZBESH"
| "entry_of (Zbesi _ _ _ _ _ _ _ _) = ZBESI"
| "entry_of (Zbesj _ _ _ _ _ _ _ _) = ZBESJ"
| "entry_of (Zbesk _ _ _ _ _ _ _ _) = ZBESK"
| "entry_of (Zbesy _ _ _ _ _ _ _ _ _ _) = ZBESY"
| "entry_of (Zairy _ _ _ _ _ _ _) = ZAIRY"
| "entry_of (Zbiry _ _ _ _ _ _) = ZBIRY"

fun args :: "call \<Rightarrow> arg list" where
  "args (Zbesh zr zi fnu kode m n cyr cyi nz) =
     [ADouble zr, ADouble zi, ADouble fnu, AInt kode, AInt m, AInt n,
      ADoublePtr cyr, ADoublePtr cyi, AIntPtr nz]"
| "args (Zbesi zr zi fnu kode n cyr cyi nz) =
     [ADouble zr, ADouble zi, ADouble fnu, AInt kode, AInt n,
      ADoublePtr cyr, ADoublePtr cyi, AIntPtr nz]"
| "args (Zbesj zr zi fnu kode n cyr cyi nz) =
     [ADouble zr, ADouble zi, ADouble fnu, AInt kode, AInt n,
      ADoublePtr cyr, ADoublePtr cyi, AIntPtr nz]"
| "args (Zbesk zr zi fnu kode n cyr cyi nz) =
     [ADouble zr, ADouble zi, ADouble fnu, AInt kode, AInt n,
      ADoublePtr cyr, ADoublePtr cyi, AIntPtr nz]"
| "args (Zbesy zr zi fnu kode n cyr cyi nz cwrkr cwrki) =
     [ADouble zr, ADouble zi, ADouble fnu, AInt kode, AInt n,
      ADoublePtr cyr, ADoublePtr cyi, AIntPtr nz, ADoublePtr cwrkr, ADoublePtr cwrki]"
| "args (Zairy zr zi id' kode air aii nz) =
     [ADouble zr, ADouble zi, AInt id', AInt kode, ADoublePtr air, ADoublePtr aii, AIntPtr nz]"
| "args (Zbiry zr zi id' kode bir bii) =
     [ADouble zr, ADouble zi, AInt id', AInt kode, ADoublePtr bir, ADoublePtr bii]"

text \<open>The argument a call passes for the parameter of a given name, if it has one.\<close>

definition arg_named :: "call \<Rightarrow> string \<Rightarrow> arg option" where
  "arg_named c x = map_of (zip (param_names (entry_of c)) (args c)) x"

fun is_ptr :: "arg \<Rightarrow> bool" where
  "is_ptr (ADoublePtr _) = True"
| "is_ptr (AIntPtr _) = True"
| "is_ptr _ = False"

definition ptr_args :: "call \<Rightarrow> arg list" where
  "ptr_args c = filter is_ptr (args c)"

text \<open>
  An exported function applied to its arguments, named by the call it stands for: the
  way to speak of all seven functions and all their arguments at once.
\<close>

fun exported :: "core \<Rightarrow> call \<Rightarrow> world \<Rightarrow> cint option \<times> world" where
  "exported K (Zbesh zr zi fnu kode m n cyr cyi nz) = zbesh K zr zi fnu kode m n cyr cyi nz"
| "exported K (Zbesi zr zi fnu kode n cyr cyi nz) = zbesi K zr zi fnu kode n cyr cyi nz"
| "exported K (Zbesj zr zi fnu kode n cyr cyi nz) = zbesj K zr zi fnu kode n cyr cyi nz"
| "exported K (Zbesk zr zi fnu kode n cyr cyi nz) = zbesk K zr zi fnu kode n cyr cyi nz"
| "exported K (Zbesy zr zi fnu kode n cyr cyi nz cwrkr cwrki) =
     zbesy K zr zi fnu kode n cyr cyi nz cwrkr cwrki"
| "exported K (Zairy zr zi id' kode air aii nz) = zairy K zr zi id' kode air aii nz"
| "exported K (Zbiry zr zi id' kode bir bii) = zbiry K zr zi id' kode bir bii"


definition n_double_ptrs :: "entry \<Rightarrow> nat" where
  "n_double_ptrs e = length (filter (\<lambda>p. snd p = CDoublePtr) (params e))"

text \<open>A memory with no allocated cell, and a world that starts from it.\<close>

definition no_memory :: memory where
  "no_memory = \<lparr>doubles = Map.empty, ints = Map.empty\<rparr>"

definition fresh_world :: world where
  "fresh_world = \<lparr>mem = no_memory, history = []\<rparr>"

text \<open>
  A core that neither reads nor writes memory: its status is a function of the arguments
  alone and it returns the memory as it found it.
\<close>

definition oblivious :: "(call \<Rightarrow> cint) \<Rightarrow> core" where
  "oblivious f c m = Some (f c, m)"

text \<open>
  A memory for the instances below: two arrays of three doubles at addresses 8 and 16,
  each cell holding the pattern 7, and one int at address 24 holding 0.
\<close>

definition sample_memory :: memory where
  "sample_memory =
     \<lparr>doubles = [8 \<mapsto> 7, 9 \<mapsto> 7, 10 \<mapsto> 7, 16 \<mapsto> 7, 17 \<mapsto> 7, 18 \<mapsto> 7],
      ints = [24 \<mapsto> 0]\<rparr>"

definition sample_world :: world where
  "sample_world = \<lparr>mem = sample_memory, history = []\<rparr>"


text \<open>
  A second stand-in core, one that gives the same result whenever it is called again: it
  stores 5 into the int at address 24, whatever that cell held, and returns 0; it does
  not return when the cell is not allocated.
\<close>

definition overwriting_core :: core where
  "overwriting_core c m =
     (case ints m 24 of
        None \<Rightarrow> None
      | Some v \<Rightarrow> Some (0, m\<lparr>ints := (ints m)(24 \<mapsto> 5)\<rparr>))"

section \<open>The driver contract of the spec\<close>

text \<open>
  The bodies of the seven zbessel routines are not among the sources. For the claims that
  are about what a routine does, the driver is modelled from the words of the spec
  (its sections 3, 4.4, 6 and 7). Steps 2 to 5 of the driver (sector reduction, choice
  of expansion, recurrence, scaling) are floating-point numerics and stay a parameter,
  and so does every number the spec leaves open.
\<close>











text \<open>
  Modelled from the spec: reading element \<open>i\<close> of an output sequence after a call, as
  the caller of a zbessel driver does; \<open>None\<close> through the null pointer or on a cell that is
  not allocated.
\<close>

fun load_double :: "dptr \<Rightarrow> nat \<Rightarrow> memory \<Rightarrow> double option" where
  "load_double (DPtr a) i m = (if a = 0 then None else doubles m (a + i))"


text \<open>
  Modelled from the spec: reading the underflow count after a call of a zbessel driver.
\<close>

fun load_int :: "iptr \<Rightarrow> memory \<Rightarrow> cint option" where
  "load_int (IPtr a) m = (if a = 0 then None else ints m a)"














text \<open>
  The count and the output pointers of a run-producing call, from the parameter lists of
  the source.
\<close>

fun run_outputs :: "call \<Rightarrow> (cint \<times> dptr \<times> dptr \<times> iptr) option" where
  "run_outputs (Zbesh zr zi fnu kode m n cyr cyi nz) = Some (n, cyr, cyi, nz)"
| "run_outputs (Zbesi zr zi fnu kode n cyr cyi nz) = Some (n, cyr, cyi, nz)"
| "run_outputs (Zbesj zr zi fnu kode n cyr cyi nz) = Some (n, cyr, cyi, nz)"
| "run_outputs (Zbesk zr zi fnu kode n cyr cyi nz) = Some (n, cyr, cyi, nz)"
| "run_outputs (Zbesy zr zi fnu kode n cyr cyi nz cwrkr cwrki) = Some (n, cyr, cyi, nz)"
| "run_outputs (Zairy zr zi id' kode air aii nz) = None"
| "run_outputs (Zbiry zr zi id' kode bir bii) = None"

text \<open>
  Modelled from the spec: an entry of the run of a zbessel driver "set to (0,0)": both
  parts hold the pattern of \<open>+0.0\<close>.
\<close>

definition entry_is_zero :: "dptr \<Rightarrow> dptr \<Rightarrow> memory \<Rightarrow> nat \<Rightarrow> bool" where
  "entry_is_zero cyr cyi m i = (load_double cyr i m = Some 0 \<and> load_double cyi i m = Some 0)"

text \<open>
  Modelled from the spec: the invariant of the underflow count of a zbessel driver, read
  from the memory after a call: "\<open>0 \<le> nz \<le> n\<close>, and entries before index \<open>nz\<close> are
  set to (0,0)".
\<close>

definition nz_invariant :: "call \<Rightarrow> memory \<Rightarrow> bool" where
  "nz_invariant c m =
     (case run_outputs c of
        None \<Rightarrow> False
      | Some (n, cyr, cyi, nz) \<Rightarrow>
          (case load_int nz m of
             None \<Rightarrow> False
           | Some k \<Rightarrow>
               0 \<le> sint k \<and> sint k \<le> sint n
               \<and> list_all (entry_is_zero cyr cyi m) [0..<nat (sint k)]))"







section \<open>Basic facts\<close>

lemma outcome_of_invoke: "outcome_of (invoke K c w) = K c (mem w)"
  by (cases "K c (mem w)") (auto simp: outcome_of_def invoke_def)

lemma calls_made_invoke: "calls_made w (invoke K c w) = [c]"
  by (cases "K c (mem w)") (auto simp: calls_made_def invoke_def)

lemma exported_invoke: "exported K c = invoke K c"
  by (cases c)
    (simp_all add: zbesh_def zbesi_def zbesj_def zbesk_def zbesy_def zairy_def zbiry_def)

lemma arg_types_match: "map arg_type (args c) = map snd (params (entry_of c))"
  by (cases c) simp_all



section \<open>The wrappers against the core routines\<close>

text \<open>
  Claim C1. For every input, every implementation of the core and every memory, each of
  the seven exported functions gives its caller exactly what the zbessel routine of the
  same name gives on the same arguments in the same order: the same status and the same
  memory at the return, and no return when the routine does not return.
\<close>

theorem wrappers_equal_core:
  "outcome_of (zbesh K zr zi fnu kode m n cyr cyi nz w)
     = K (Zbesh zr zi fnu kode m n cyr cyi nz) (mem w)
   \<and> outcome_of (zbesi K zr zi fnu kode n cyr cyi nz w)
     = K (Zbesi zr zi fnu kode n cyr cyi nz) (mem w)
   \<and> outcome_of (zbesj K zr zi fnu kode n cyr cyi nz w)
     = K (Zbesj zr zi fnu kode n cyr cyi nz) (mem w)
   \<and> outcome_of (zbesk K zr zi fnu kode n cyr cyi nz w)
     = K (Zbesk zr zi fnu kode n cyr cyi nz) (mem w)
   \<and> outcome_of (zbesy K zr zi fnu kode n cyr cyi nz cwrkr cwrki w)
     = K (Zbesy zr zi fnu kode n cyr cyi nz cwrkr cwrki) (mem w)
   \<and> outcome_of (zairy K zr zi id' kode air aii nz w)
     = K (Zairy zr zi id' kode air aii nz) (mem w)
   \<and> outcome_of (zbiry K zr zi id' kode bir bii w)
     = K (Zbiry zr zi id' kode bir bii) (mem w)"
  unfolding zbesh_def zbesi_def zbesj_def zbesk_def zbesy_def zairy_def zbiry_def
  by (simp only: outcome_of_invoke simp_thms)


lemma scratch_only_zbesy:
  "(has_param e ''cwrkr'' \<or> has_param e ''cwrki'') = (e = ZBESY)"
  by (cases e) (simp_all add: has_param_def param_names_def)

lemma n_double_ptrs_eq: "n_double_ptrs e = (if e = ZBESY then 4 else 2)"
  by (cases e) (simp_all add: n_double_ptrs_def)


text \<open>
  Claim C9. For every input (valid or not), every core and every world, an exported
  function calls the zbessel routine of its name exactly once, with its own arguments, and
  hands back whatever the routine gives: there is no check in front of the call, so a core
  that accepts everything sees nothing rejected at the exported boundary.
\<close>

theorem exported_calls_core_once:
  "calls_made w (exported K c w) = [c]
   \<and> length (calls_made w (exported K c w)) = 1
   \<and> outcome_of (exported K c w) = K c (mem w)
   \<and> fst (exported (oblivious (\<lambda>_. 0)) c w) = Some 0"
  by (simp add: exported_invoke calls_made_invoke outcome_of_invoke)
    (simp add: invoke_def oblivious_def)

text \<open>
  An instance with arguments the spec classes as invalid: order \<open>-1.0\<close> (the pattern
  \<open>0xBFF0000000000000\<close>), count \<open>n = 0\<close> and \<open>kode = 7\<close> reach the core as they are.
\<close>

lemma invalid_arguments_reach_core:
  "calls_made fresh_world
     (zbesi K 0 0 0xBFF0000000000000 7 0 (DPtr 8) (DPtr 16) (IPtr 24) fresh_world)
   = [Zbesi 0 0 0xBFF0000000000000 7 0 (DPtr 8) (DPtr 16) (IPtr 24)]"
  by (simp add: zbesi_def calls_made_invoke)

text \<open>
  Claim C10. The exported functions hand every pointer to the core as they received it,
  the null pointer included, and touch no memory themselves: a call fails to return only
  when the core does, and over a core that neither reads nor writes memory, the memory
  at the return is the memory at the call and the status does not depend on it, even
  when no cell at all is allocated.
\<close>

theorem pointers_forwarded_untouched:
  "map ptr_args (calls_made w (exported K c w)) = [ptr_args c]
   \<and> (fst (exported K c w) = None) = (K c (mem w) = None)
   \<and> exported (oblivious f) c w = (Some (f c), w\<lparr>history := history w @ [c]\<rparr>)
   \<and> calls_made w (zbesh K zr zi fnu kode m n null_dptr null_dptr null_iptr w)
       = [Zbesh zr zi fnu kode m n null_dptr null_dptr null_iptr]
   \<and> calls_made w (zbesy K zr zi fnu kode n null_dptr null_dptr null_iptr null_dptr null_dptr w)
       = [Zbesy zr zi fnu kode n null_dptr null_dptr null_iptr null_dptr null_dptr]
   \<and> calls_made w (zairy K zr zi id' kode null_dptr null_dptr null_iptr w)
       = [Zairy zr zi id' kode null_dptr null_dptr null_iptr]
   \<and> calls_made w (zbiry K zr zi id' kode null_dptr null_dptr w)
       = [Zbiry zr zi id' kode null_dptr null_dptr]
   \<and> fst (zbiry (oblivious f) zr zi id' kode null_dptr null_dptr fresh_world)
       = Some (f (Zbiry zr zi id' kode null_dptr null_dptr))"
proof -
  have fwd: "map ptr_args (calls_made w (exported K c w)) = [ptr_args c]"
    by (simp add: exported_invoke calls_made_invoke)
  have fault: "(fst (exported K c w) = None) = (K c (mem w) = None)"
    by (cases "K c (mem w)") (auto simp: exported_invoke invoke_def)
  have obl: "exported (oblivious f) c w = (Some (f c), w\<lparr>history := history w @ [c]\<rparr>)"
    by (simp add: exported_invoke invoke_def oblivious_def)
  have nulls:
    "calls_made w (zbesh K zr zi fnu kode m n null_dptr null_dptr null_iptr w)
       = [Zbesh zr zi fnu kode m n null_dptr null_dptr null_iptr]"
    "calls_made w (zbesy K zr zi fnu kode n null_dptr null_dptr null_iptr null_dptr null_dptr w)
       = [Zbesy zr zi fnu kode n null_dptr null_dptr null_iptr null_dptr null_dptr]"
    "calls_made w (zairy K zr zi id' kode null_dptr null_dptr null_iptr w)
       = [Zairy zr zi id' kode null_dptr null_dptr null_iptr]"
    "calls_made w (zbiry K zr zi id' kode null_dptr null_dptr w)
       = [Zbiry zr zi id' kode null_dptr null_dptr]"
    by (simp_all add: zbesh_def zbesy_def zairy_def zbiry_def calls_made_invoke)
  have unalloc:
    "fst (zbiry (oblivious f) zr zi id' kode null_dptr null_dptr fresh_world)
       = Some (f (Zbiry zr zi id' kode null_dptr null_dptr))"
    by (simp add: zbiry_def invoke_def oblivious_def)
  from fwd fault obl nulls unalloc show ?thesis
    by (intro conjI)
qed

text \<open>
  Claim C5. An exported function has no state of its own. Whenever the core gives the same
  result on two memories, so does the exported function, whatever else the two memories
  hold and whatever calls were made before; in particular on equal memories. Called twice
  in a row with the same arguments over a core that repeats its result, it returns the
  same status and leaves the same memory both times; over a core that neither reads nor
  writes memory, the second call returns what the first returned and the memory is still
  the one before the first call.
\<close>

theorem exported_deterministic_stateless:
  "(K c (mem w1) = K c (mem w2)
      \<longrightarrow> outcome_of (exported K c w1) = outcome_of (exported K c w2))
   \<and> (mem w1 = mem w2
      \<longrightarrow> fst (exported K c w1) = fst (exported K c w2)
        \<and> mem (snd (exported K c w1)) = mem (snd (exported K c w2)))
   \<and> (K c (mem w) = Some (st, m1) \<and> K c m1 = Some (st, m1)
      \<longrightarrow> outcome_of (exported K c w) = Some (st, m1)
        \<and> outcome_of (exported K c (snd (exported K c w))) = Some (st, m1))
   \<and> outcome_of (exported (oblivious f) c (snd (exported (oblivious f) c w)))
       = Some (f c, mem w)"
proof -
  have same_core: "K c (mem w1) = K c (mem w2)
      \<longrightarrow> outcome_of (exported K c w1) = outcome_of (exported K c w2)"
    by (simp add: exported_invoke outcome_of_invoke)
  have same_mem: "mem w1 = mem w2
      \<longrightarrow> fst (exported K c w1) = fst (exported K c w2)
        \<and> mem (snd (exported K c w1)) = mem (snd (exported K c w2))"
  proof
    assume eq: "mem w1 = mem w2"
    have "fst (invoke K c w1) = fst (invoke K c w2)"
      using eq by (cases "K c (mem w2)") (auto simp: invoke_def)
    moreover have "mem (snd (invoke K c w1)) = mem (snd (invoke K c w2))"
      using eq by (cases "K c (mem w2)") (auto simp: invoke_def)
    ultimately show "fst (exported K c w1) = fst (exported K c w2)
        \<and> mem (snd (exported K c w1)) = mem (snd (exported K c w2))"
      by (simp add: exported_invoke)
  qed
  have twice: "K c (mem w) = Some (st, m1) \<and> K c m1 = Some (st, m1)
      \<longrightarrow> outcome_of (exported K c w) = Some (st, m1)
        \<and> outcome_of (exported K c (snd (exported K c w))) = Some (st, m1)"
  proof
    assume h: "K c (mem w) = Some (st, m1) \<and> K c m1 = Some (st, m1)"
    then have first: "outcome_of (exported K c w) = Some (st, m1)"
      by (simp add: exported_invoke outcome_of_invoke)
    from h have "mem (snd (invoke K c w)) = m1"
      by (simp add: invoke_def)
    with h have "outcome_of (exported K c (snd (exported K c w))) = Some (st, m1)"
      by (simp add: exported_invoke outcome_of_invoke)
    with first show "outcome_of (exported K c w) = Some (st, m1)
        \<and> outcome_of (exported K c (snd (exported K c w))) = Some (st, m1)"
      by simp
  qed
  have pure: "outcome_of (exported (oblivious f) c (snd (exported (oblivious f) c w)))
       = Some (f c, mem w)"
    by (simp add: exported_invoke invoke_def oblivious_def outcome_of_def)
  from same_core same_mem twice pure show ?thesis
    by (intro conjI)
qed

text \<open>
  The witness of C5, under a core that reads and writes memory: two worlds that differ in
  the int at address 24 and in their histories, on which the core gives the same result;
  and the same call made twice in a row.
\<close>

theorem exported_deterministic_stateless_witness:
  "overwriting_core (Zbesj 0 0 0 1 3 (DPtr 8) (DPtr 16) (IPtr 24)) (mem sample_world)
     = overwriting_core (Zbesj 0 0 0 1 3 (DPtr 8) (DPtr 16) (IPtr 24))
         (sample_memory\<lparr>ints := [24 \<mapsto> 3]\<rparr>)
   \<and> outcome_of (exported overwriting_core (Zbesj 0 0 0 1 3 (DPtr 8) (DPtr 16) (IPtr 24))
        sample_world)
     = outcome_of (exported overwriting_core (Zbesj 0 0 0 1 3 (DPtr 8) (DPtr 16) (IPtr 24))
        \<lparr>mem = sample_memory\<lparr>ints := [24 \<mapsto> 3]\<rparr>,
          history = [Zbiry 0 0 0 0 null_dptr null_dptr]\<rparr>)
   \<and> outcome_of (exported overwriting_core (Zbesj 0 0 0 1 3 (DPtr 8) (DPtr 16) (IPtr 24))
        sample_world)
     = Some (0, sample_memory\<lparr>ints := [24 \<mapsto> 5]\<rparr>)
   \<and> outcome_of (exported overwriting_core (Zbesj 0 0 0 1 3 (DPtr 8) (DPtr 16) (IPtr 24))
        (snd (exported overwriting_core (Zbesj 0 0 0 1 3 (DPtr 8) (DPtr 16) (IPtr 24))
           sample_world)))
     = Some (0, sample_memory\<lparr>ints := [24 \<mapsto> 5]\<rparr>)
   \<and> fst (exported overwriting_core (Zbesj 0 0 0 1 3 (DPtr 8) (DPtr 16) (IPtr 24))
        sample_world)
     = fst (exported overwriting_core (Zbesj 0 0 0 1 3 (DPtr 8) (DPtr 16) (IPtr 24))
        (sample_world\<lparr>history := [Zbiry 0 0 0 0 null_dptr null_dptr]\<rparr>))"
proof -
  let ?c = "Zbesj 0 0 0 1 3 (DPtr 8) (DPtr 16) (IPtr 24)"
  let ?w2 = "\<lparr>mem = sample_memory\<lparr>ints := [24 \<mapsto> 3]\<rparr>,
               history = [Zbiry 0 0 0 0 null_dptr null_dptr]\<rparr>"
  let ?m1 = "sample_memory\<lparr>ints := [24 \<mapsto> 5]\<rparr>"
  have agree: "overwriting_core ?c (mem sample_world) = overwriting_core ?c (mem ?w2)"
    by (simp add: overwriting_core_def sample_world_def sample_memory_def)
  have first: "overwriting_core ?c (mem sample_world) = Some (0, ?m1)"
    by (simp add: overwriting_core_def sample_world_def sample_memory_def)
  have again: "overwriting_core ?c ?m1 = Some (0, ?m1)"
    by (simp add: overwriting_core_def sample_memory_def)
  note thm1 = exported_deterministic_stateless
    [where K = overwriting_core and c = ?c and ?w1.0 = sample_world and ?w2.0 = ?w2
       and w = sample_world and st = 0 and ?m1.0 = ?m1]
  from thm1 agree have
    "outcome_of (exported overwriting_core ?c sample_world)
       = outcome_of (exported overwriting_core ?c ?w2)"
    by blast
  moreover from thm1 first again have
    "outcome_of (exported overwriting_core ?c sample_world) = Some (0, ?m1)
     \<and> outcome_of (exported overwriting_core ?c (snd (exported overwriting_core ?c sample_world)))
         = Some (0, ?m1)"
    by blast
  moreover from agree have
    "overwriting_core ?c (mem sample_world) = overwriting_core ?c (sample_memory\<lparr>ints := [24 \<mapsto> 3]\<rparr>)"
    by simp
  moreover have
    "fst (exported overwriting_core ?c sample_world)
       = fst (exported overwriting_core ?c
           (sample_world\<lparr>history := [Zbiry 0 0 0 0 null_dptr null_dptr]\<rparr>))"
  proof -
    have "mem sample_world
        = mem (sample_world\<lparr>history := [Zbiry 0 0 0 0 null_dptr null_dptr]\<rparr>)"
      by simp
    with exported_deterministic_stateless
      [where K = overwriting_core and c = ?c and ?w1.0 = sample_world
         and ?w2.0 = "sample_world\<lparr>history := [Zbiry 0 0 0 0 null_dptr null_dptr]\<rparr>"]
    show ?thesis
      by blast
  qed
  ultimately show ?thesis
    by (intro conjI) (simp_all only:)
qed

section \<open>The shape of the interface\<close>

text \<open>
  Claim C6. zbesy declares the parameters of zbesj (z, fnu, kode, n, the run outputs
  cyr and cyi, and nz) followed by the two work arrays cwrkr and cwrki, both
  \<^verbatim>\<open>double *\<close>; it hands both to the core; and no other exported function has a work
  array: the other six have exactly two \<^verbatim>\<open>double *\<close> parameters, zbesy has four.
\<close>

theorem zbesy_scratch_buffers:
  "param_names ZBESY = param_names ZBESJ @ [''cwrkr'', ''cwrki'']
   \<and> param_names ZBESJ = [''zr'', ''zi'', ''fnu'', ''kode'', ''n'', ''cyr'', ''cyi'', ''nz'']
   \<and> (''cwrkr'', CDoublePtr) \<in> set (params ZBESY)
   \<and> (''cwrki'', CDoublePtr) \<in> set (params ZBESY)
   \<and> (\<forall>e. (has_param e ''cwrkr'' \<or> has_param e ''cwrki'') = (e = ZBESY))
   \<and> (\<forall>e. n_double_ptrs e = (if e = ZBESY then 4 else 2))
   \<and> arg_named (Zbesy zr zi fnu kode n cyr cyi nz cwrkr cwrki) ''cwrkr'' = Some (ADoublePtr cwrkr)
   \<and> arg_named (Zbesy zr zi fnu kode n cyr cyi nz cwrkr cwrki) ''cwrki'' = Some (ADoublePtr cwrki)
   \<and> calls_made w (zbesy K zr zi fnu kode n cyr cyi nz cwrkr cwrki w)
       = [Zbesy zr zi fnu kode n cyr cyi nz cwrkr cwrki]"
proof -
  have names:
    "param_names ZBESY = param_names ZBESJ @ [''cwrkr'', ''cwrki'']"
    "param_names ZBESJ = [''zr'', ''zi'', ''fnu'', ''kode'', ''n'', ''cyr'', ''cyi'', ''nz'']"
    by (simp_all add: param_names_def)
  have types:
    "(''cwrkr'', CDoublePtr) \<in> set (params ZBESY)"
    "(''cwrki'', CDoublePtr) \<in> set (params ZBESY)"
    by simp_all
  have only: "\<forall>e. (has_param e ''cwrkr'' \<or> has_param e ''cwrki'') = (e = ZBESY)"
    by (simp add: scratch_only_zbesy)
  have count: "\<forall>e. n_double_ptrs e = (if e = ZBESY then 4 else 2)"
    by (simp add: n_double_ptrs_eq)
  have passed:
    "arg_named (Zbesy zr zi fnu kode n cyr cyi nz cwrkr cwrki) ''cwrkr'' = Some (ADoublePtr cwrkr)"
    "arg_named (Zbesy zr zi fnu kode n cyr cyi nz cwrkr cwrki) ''cwrki'' = Some (ADoublePtr cwrki)"
    by (simp_all add: arg_named_def param_names_def)
  have called:
    "calls_made w (zbesy K zr zi fnu kode n cyr cyi nz cwrkr cwrki w)
       = [Zbesy zr zi fnu kode n cyr cyi nz cwrkr cwrki]"
    by (simp add: zbesy_def calls_made_invoke)
  from names types only count passed called show ?thesis
    by (intro conjI)
qed


section \<open>The driver contract of the spec: facts\<close>
















lemma nz_invariant_needs_count:
  "sint n < 0 \<Longrightarrow> \<not> nz_invariant (Zbesi zr zi fnu kode n cyr cyi nz) m"
  by (auto simp: nz_invariant_def split: option.splits)















section \<open>The claims about the drivers\<close>










end
